theory Spec2Isabelle
  imports Complex_Main "HOL-Library.Word"
begin

section \<open>The ripple filter of App.tsx\<close>

text \<open>
  The only function of the repository with computational content is
  \<^verbatim>\<open>createRippleEffect\<close> (src/src/App.tsx, lines 20 to 99). It reads the pixels of a
  canvas, allocates a second pixel buffer of the same size, and copies or drops every
  pixel according to its distance from the image border and a trigonometric wave.

  Modelling decisions.
  \<^item> A JavaScript \<^verbatim>\<open>number\<close> that holds a pixel coordinate, an image dimension or a
    buffer index is an \<^typ>\<open>int\<close>.
  \<^item> \<^verbatim>\<open>intensity\<close>, \<^verbatim>\<open>frequency\<close> and every value computed from them are IEEE 754
    doubles. A finite double is the \<^typ>\<open>real\<close> it denotes, and \<^verbatim>\<open><\<close> on doubles is
    \<open><\<close> on those reals. What \<^verbatim>\<open>*\<close>, \<^verbatim>\<open>+\<close>, \<^verbatim>\<open>-\<close>, \<^verbatim>\<open>Math.sin\<close>, \<^verbatim>\<open>Math.cos\<close> and a
    numeric literal evaluate to is fixed by the language and the engine, not by the
    repository: these are the fields of a record \<open>NumberOps\<close> that every function of the
    model takes as its first argument, and every theorem holds for every such record.
    \<^verbatim>\<open>Math.abs\<close> and \<^verbatim>\<open>Math.min\<close> are exact. Infinities and NaN are not modelled.
  \<^item> A \<^verbatim>\<open>Uint8ClampedArray\<close> is a list of bytes. A read outside the array gives
    \<^verbatim>\<open>undefined\<close> (here \<open>None\<close>), a write outside the array does nothing, and storing
    \<^verbatim>\<open>undefined\<close> stores 0.
  \<^item> The canvas context is not code of the repository: its two methods used by the
    filter are fields of a record, and an exception thrown by either is a left
    injection that the filter passes on.
  \<^item> The two nested \<^verbatim>\<open>for\<close> loops and the clearing loop are recursive functions over
    their counters.
\<close>

subsection \<open>Pixel buffers and the canvas\<close>

type_synonym byte = "8 word"

record ImageData =
  img_width :: int
  img_height :: int
  img_data :: "byte list"

record 'e CanvasRenderingContext2D =
  getImageData :: "int \<Rightarrow> int \<Rightarrow> int \<Rightarrow> int \<Rightarrow> 'e + ImageData"
  createImageData :: "int \<Rightarrow> int \<Rightarrow> 'e + ImageData"

text \<open>\<^verbatim>\<open>a[i]\<close> as an expression.\<close>

definition getElem :: "byte list \<Rightarrow> int \<Rightarrow> byte option" where
  "getElem a i = (if 0 \<le> i \<and> i < int (length a) then Some (a ! nat i) else None)"

text \<open>\<^verbatim>\<open>a[i] = v\<close> as a statement.\<close>

definition setElem :: "byte list \<Rightarrow> int \<Rightarrow> byte option \<Rightarrow> byte list" where
  "setElem a i v =
     (if 0 \<le> i \<and> i < int (length a)
      then a[nat i := (case v of Some b \<Rightarrow> b | None \<Rightarrow> 0)]
      else a)"

subsection \<open>Arithmetic on doubles\<close>

text \<open>
  \<open>num_mul\<close>, \<open>num_add\<close> and \<open>num_sub\<close> are \<^verbatim>\<open>a * b\<close>, \<^verbatim>\<open>a + b\<close> and \<^verbatim>\<open>a - b\<close> on doubles,
  \<open>Math_sin\<close> and \<open>Math_cos\<close> are the engine's \<^verbatim>\<open>Math.sin\<close> and \<^verbatim>\<open>Math.cos\<close>, and
  \<open>num_lit\<close> gives the double that a numeric literal of the source text denotes
  (\<^verbatim>\<open>0.3\<close> is \<open>num_lit N 0.3\<close>, which for IEEE doubles is not three tenths).
\<close>

record NumberOps =
  num_mul :: "real \<Rightarrow> real \<Rightarrow> real"
  num_add :: "real \<Rightarrow> real \<Rightarrow> real"
  num_sub :: "real \<Rightarrow> real \<Rightarrow> real"
  Math_sin :: "real \<Rightarrow> real"
  Math_cos :: "real \<Rightarrow> real"
  num_lit :: "real \<Rightarrow> real"

subsection \<open>Lines 33 to 36: clearing the alpha channel\<close>

function clearLoop :: "int \<Rightarrow> byte list \<Rightarrow> byte list" where
  "clearLoop i newData =
     (if i < int (length newData)
      then clearLoop (i + 4) (setElem newData (i + 3) (Some 0))
      else newData)"
  by pat_completeness auto
termination
  by (relation "measure (\<lambda>(i, newData). nat (int (length newData) - i))")
    (auto simp: setElem_def)

declare clearLoop.simps [simp del]

subsection \<open>Lines 40 to 82: the decision for one pixel\<close>

definition minDistFromEdge :: "int \<Rightarrow> int \<Rightarrow> int \<Rightarrow> int \<Rightarrow> int" where
  "minDistFromEdge x y width height =
     (let distFromLeft = x;
          distFromRight = width - x;
          distFromTop = y;
          distFromBottom = height - y
      in min (min (min distFromLeft distFromRight) distFromTop) distFromBottom)"

text \<open>
  The \<^verbatim>\<open>switch\<close> of lines 54 to 73. Products associate to the left, as in the source:
  \<^verbatim>\<open>y * frequency * 1.3\<close> is \<^verbatim>\<open>(y * frequency) * 1.3\<close>.
\<close>

definition waveValue :: "NumberOps \<Rightarrow> string \<Rightarrow> int \<Rightarrow> int \<Rightarrow> real \<Rightarrow> real" where
  "waveValue N pattern x y frequency =
     (if pattern = ''gothic'' then
        num_add N
          (num_mul N
            (Math_sin N (num_mul N (real_of_int x) frequency))
            (Math_cos N (num_mul N (num_mul N (real_of_int y) frequency) (num_lit N 1.3))))
          (num_mul N
            (Math_sin N (num_mul N (num_mul N (real_of_int y) frequency) (num_lit N 0.7)))
            (Math_cos N (num_mul N (num_mul N (real_of_int x) frequency) (num_lit N 0.8))))
      else if pattern = ''organic'' then
        num_add N
          (num_add N
            (Math_sin N (num_mul N (num_mul N (real_of_int x) frequency) (num_lit N 1.2)))
            (Math_cos N (num_mul N (num_mul N (real_of_int y) frequency) (num_lit N 0.9))))
          (Math_sin N (num_mul N (num_mul N (real_of_int (x + y)) frequency) (num_lit N 0.5)))
      else if pattern = ''flame'' then
        num_add N
          (num_mul N
            (Math_sin N (num_mul N (real_of_int x) frequency))
            (Math_sin N (num_mul N (num_mul N (real_of_int y) frequency) (num_lit N 2))))
          (num_mul N
            (Math_cos N (num_mul N (num_mul N (real_of_int x) frequency) (num_lit N 0.3)))
            (Math_sin N (num_mul N (num_mul N (real_of_int y) frequency) (num_lit N 1.5))))
      else if pattern = ''thorns'' then
        num_add N
          (num_mul N
            \<bar>Math_sin N (num_mul N (num_mul N (real_of_int x) frequency) (num_lit N 3))\<bar>
            (Math_cos N (num_mul N (real_of_int y) frequency)))
          (num_mul N
            \<bar>Math_cos N (num_mul N (num_mul N (real_of_int y) frequency) (num_lit N 2))\<bar>
            (Math_sin N (num_mul N (real_of_int x) frequency)))
      else
        num_add N
          (Math_sin N (num_mul N (real_of_int x) frequency))
          (Math_cos N (num_mul N (real_of_int y) frequency)))"

definition shouldInclude ::
  "NumberOps \<Rightarrow> int \<Rightarrow> int \<Rightarrow> int \<Rightarrow> int \<Rightarrow> real \<Rightarrow> real \<Rightarrow> string \<Rightarrow> bool" where
  "shouldInclude N x y width height intensity frequency pattern =
     (let m = minDistFromEdge x y width height in
      if real_of_int m < num_mul N intensity (num_lit N 2) then
        let rippleOffset =
              num_mul N
                (num_mul N (waveValue N pattern x y frequency)
                   (num_sub N intensity (real_of_int m)))
                (num_lit N 0.3);
            cutoffThreshold = num_add N (real_of_int m) rippleOffset
        in if cutoffThreshold < num_mul N intensity (num_lit N 0.8) then False else True
      else True)"

subsection \<open>Lines 84 to 94: copying one pixel\<close>

definition copyPixel :: "byte list \<Rightarrow> int \<Rightarrow> int \<Rightarrow> int \<Rightarrow> byte list \<Rightarrow> byte list" where
  "copyPixel data width x y newData =
     (let sourceIndex = (y * width + x) * 4;
          targetIndex = (y * width + x) * 4
      in if sourceIndex \<ge> 0 \<and> sourceIndex < int (length data) then
           (let n0 = setElem newData targetIndex (getElem data sourceIndex);
                n1 = setElem n0 (targetIndex + 1) (getElem data (sourceIndex + 1));
                n2 = setElem n1 (targetIndex + 2) (getElem data (sourceIndex + 2));
                n3 = setElem n2 (targetIndex + 3) (getElem data (sourceIndex + 3))
            in n3)
         else newData)"

definition pixelBody ::
  "NumberOps \<Rightarrow> byte list \<Rightarrow> int \<Rightarrow> int \<Rightarrow> real \<Rightarrow> real \<Rightarrow> string \<Rightarrow> int \<Rightarrow> int \<Rightarrow>
   byte list \<Rightarrow> byte list" where
  "pixelBody N data width height intensity frequency pattern x y newData =
     (if shouldInclude N x y width height intensity frequency pattern
      then copyPixel data width x y newData
      else newData)"

subsection \<open>Lines 38 to 96: the two loops\<close>

function xLoop ::
  "NumberOps \<Rightarrow> byte list \<Rightarrow> int \<Rightarrow> int \<Rightarrow> real \<Rightarrow> real \<Rightarrow> string \<Rightarrow> int \<Rightarrow> int \<Rightarrow>
   byte list \<Rightarrow> byte list" where
  "xLoop N data width height intensity frequency pattern y x newData =
     (if x < width
      then xLoop N data width height intensity frequency pattern y (x + 1)
             (pixelBody N data width height intensity frequency pattern x y newData)
      else newData)"
  by pat_completeness auto
termination
  by (relation "measure (\<lambda>(N, data, width, height, intensity, frequency, pattern, y, x, newData).
        nat (width - x))") auto

declare xLoop.simps [simp del]

function yLoop ::
  "NumberOps \<Rightarrow> byte list \<Rightarrow> int \<Rightarrow> int \<Rightarrow> real \<Rightarrow> real \<Rightarrow> string \<Rightarrow> int \<Rightarrow>
   byte list \<Rightarrow> byte list" where
  "yLoop N data width height intensity frequency pattern y newData =
     (if y < height
      then yLoop N data width height intensity frequency pattern (y + 1)
             (xLoop N data width height intensity frequency pattern y 0 newData)
      else newData)"
  by pat_completeness auto
termination
  by (relation "measure (\<lambda>(N, data, width, height, intensity, frequency, pattern, y, newData).
        nat (height - y))") auto

declare yLoop.simps [simp del]

subsection \<open>Lines 20 to 99: the filter\<close>

definition createRippleEffect ::
  "NumberOps \<Rightarrow> 'e CanvasRenderingContext2D \<Rightarrow> int \<Rightarrow> int \<Rightarrow> real \<Rightarrow> real \<Rightarrow> string \<Rightarrow>
   'e + ImageData" where
  "createRippleEffect N ctx width height intensity frequency pattern =
     (case getImageData ctx 0 0 width height of
        Inl e \<Rightarrow> Inl e
      | Inr imageData \<Rightarrow>
          (case createImageData ctx width height of
             Inl e \<Rightarrow> Inl e
           | Inr newImageData \<Rightarrow>
               (let data = img_data imageData;
                    newData = img_data newImageData;
                    cleared = clearLoop 0 newData;
                    filled = yLoop N data width height intensity frequency pattern 0 cleared
                in Inr (newImageData\<lparr>img_data := filled\<rparr>))))"

subsection \<open>Observing the result\<close>

text \<open>
  The four channel bytes R, G, B, A of the pixel at column \<open>x\<close> and row \<open>y\<close> of an image,
  at the index \<^verbatim>\<open>(y * width + x) * 4\<close> that lines 85 and 86 compute.
\<close>

definition pixelAt :: "ImageData \<Rightarrow> int \<Rightarrow> int \<Rightarrow> byte list" where
  "pixelAt img x y = take 4 (drop (nat ((y * img_width img + x) * 4)) (img_data img))"

text \<open>
  What the canvas gives the filter when both calls succeed, as the HTML standard has it:
  \<^verbatim>\<open>getImageData(0, 0, width, height)\<close> returns an image of \<open>width\<close> by \<open>height\<close> pixels
  with four bytes per pixel, and \<^verbatim>\<open>createImageData(width, height)\<close> returns an image of
  the same shape whose bytes are all 0 (transparent black).
\<close>

definition wellFormed :: "ImageData \<Rightarrow> int \<Rightarrow> int \<Rightarrow> bool" where
  "wellFormed img w h =
     (img_width img = w \<and> img_height img = h \<and> int (length (img_data img)) = 4 * w * h)"

definition transparentBlack :: "ImageData \<Rightarrow> bool" where
  "transparentBlack img = (img_data img = replicate (length (img_data img)) 0)"

definition canvasProvides ::
  "'e CanvasRenderingContext2D \<Rightarrow> int \<Rightarrow> int \<Rightarrow> ImageData \<Rightarrow> ImageData \<Rightarrow> bool" where
  "canvasProvides ctx width height imageData newImageData =
     (getImageData ctx 0 0 width height = Inr imageData \<and>
      createImageData ctx width height = Inr newImageData \<and>
      wellFormed imageData width height \<and>
      wellFormed newImageData width height \<and>
      transparentBlack newImageData)"

text \<open>
  A canvas for the examples: \<open>w\<close> by \<open>h\<close> pixels holding \<open>pixels\<close>. It answers the two
  requests the filter makes for a canvas of positive size, and throws otherwise.
\<close>

definition testCanvas :: "int \<Rightarrow> int \<Rightarrow> byte list \<Rightarrow> string CanvasRenderingContext2D" where
  "testCanvas w h pixels =
     \<lparr>getImageData = (\<lambda>sx sy sw sh.
        if sx = 0 \<and> sy = 0 \<and> sw = w \<and> sh = h \<and> 0 < w \<and> 0 < h
        then Inr \<lparr>img_width = w, img_height = h, img_data = pixels\<rparr>
        else Inl ''IndexSizeError''),
      createImageData = (\<lambda>sw sh.
        if 0 < sw \<and> 0 < sh
        then Inr \<lparr>img_width = sw, img_height = sh, img_data = replicate (nat (4 * sw * sh)) 0\<rparr>
        else Inl ''IndexSizeError'')\<rparr>"

subsection \<open>IEEE 754 binary64 for the examples\<close>

text \<open>
  The arithmetic of a JavaScript engine on finite doubles, for evaluating the filter at
  concrete inputs. The result of an operation is the exact result rounded to the nearest
  double, ties to the even significand: a significand of 53 bits, the unit in the last
  place \<open>2 ^ (e - 52)\<close> for a value of binary exponent \<open>e\<close>, and exponent \<open>- 1022\<close> for the
  subnormal range. Results beyond the largest double are outside the model.
  ECMAScript leaves the precision of \<^verbatim>\<open>Math.sin\<close> and \<^verbatim>\<open>Math.cos\<close> to the engine; here
  they are correctly rounded, and the examples use them only at 0, where every engine
  gives \<^verbatim>\<open>Math.sin(0) = 0\<close> and \<^verbatim>\<open>Math.cos(0) = 1\<close>.
\<close>

definition roundHalfEven :: "real \<Rightarrow> int" where
  "roundHalfEven r =
     (let f = \<lfloor>r\<rfloor>; d = r - of_int f
      in if d < 1/2 then f else if 1/2 < d then f + 1 else if even f then f else f + 1)"

definition round64 :: "real \<Rightarrow> real" where
  "round64 v =
     (if v = 0 then 0
      else (let e = max \<lfloor>log 2 \<bar>v\<bar>\<rfloor> (- 1022);
                ulp = 2 powi (e - 52)
            in of_int (roundHalfEven (v / ulp)) * ulp))"

definition binary64 :: NumberOps where
  "binary64 =
     \<lparr>num_mul = (\<lambda>a b. round64 (a * b)),
      num_add = (\<lambda>a b. round64 (a + b)),
      num_sub = (\<lambda>a b. round64 (a - b)),
      Math_sin = (\<lambda>a. round64 (sin a)),
      Math_cos = (\<lambda>a. round64 (cos a)),
      num_lit = round64\<rparr>"

subsection \<open>The specification's table of wave patterns\<close>

text \<open>
  The closed pattern type of the specification, the tag each pattern has in the
  \<^verbatim>\<open>select\<close> element of the page (lines 244 to 247), and the formulas of the
  specification's table, written from the table and not from the code, in the same
  arithmetic.
\<close>

datatype WavePattern = Gothic | Organic | Flame | Thorns

definition patternTag :: "WavePattern \<Rightarrow> string" where
  "patternTag p =
     (case p of Gothic \<Rightarrow> ''gothic'' | Organic \<Rightarrow> ''organic''
      | Flame \<Rightarrow> ''flame'' | Thorns \<Rightarrow> ''thorns'')"

definition specWave :: "NumberOps \<Rightarrow> WavePattern \<Rightarrow> real \<Rightarrow> real \<Rightarrow> real \<Rightarrow> real" where
  "specWave N p x y f =
     (case p of
        Gothic \<Rightarrow>
          num_add N
            (num_mul N (Math_sin N (num_mul N x f))
               (Math_cos N (num_mul N (num_mul N y f) (num_lit N 1.3))))
            (num_mul N (Math_sin N (num_mul N (num_mul N y f) (num_lit N 0.7)))
               (Math_cos N (num_mul N (num_mul N x f) (num_lit N 0.8))))
      | Organic \<Rightarrow>
          num_add N
            (num_add N (Math_sin N (num_mul N (num_mul N x f) (num_lit N 1.2)))
               (Math_cos N (num_mul N (num_mul N y f) (num_lit N 0.9))))
            (Math_sin N (num_mul N (num_mul N (x + y) f) (num_lit N 0.5)))
      | Flame \<Rightarrow>
          num_add N
            (num_mul N (Math_sin N (num_mul N x f))
               (Math_sin N (num_mul N (num_mul N y f) (num_lit N 2))))
            (num_mul N (Math_cos N (num_mul N (num_mul N x f) (num_lit N 0.3)))
               (Math_sin N (num_mul N (num_mul N y f) (num_lit N 1.5))))
      | Thorns \<Rightarrow>
          num_add N
            (num_mul N \<bar>Math_sin N (num_mul N (num_mul N x f) (num_lit N 3))\<bar>
               (Math_cos N (num_mul N y f)))
            (num_mul N \<bar>Math_cos N (num_mul N (num_mul N y f) (num_lit N 2))\<bar>
               (Math_sin N (num_mul N x f))))"

section \<open>Properties of the parts\<close>

subsection \<open>Typed arrays and the clearing loop\<close>

lemma length_setElem [simp]: "length (setElem a i v) = length a"
  by (simp add: setElem_def)

lemma setElem_nth:
  "k < length a \<Longrightarrow>
   setElem a i v ! k = (if i = int k then (case v of Some b \<Rightarrow> b | None \<Rightarrow> 0) else a ! k)"
  by (auto simp: setElem_def nth_list_update)

lemma length_clearLoop [simp]: "length (clearLoop i newData) = length newData"
proof (induction i newData rule: clearLoop.induct)
  case (1 i newData)
  then show ?case by (subst clearLoop.simps) simp
qed

lemma clearLoop_nth:
  "0 \<le> i \<Longrightarrow> k < length newData \<Longrightarrow>
   clearLoop i newData ! k =
     (if i + 3 \<le> int k \<and> (int k - i) mod 4 = 3 then 0 else newData ! k)"
proof (induction i newData rule: clearLoop.induct)
  case (1 i newData)
  show ?case
  proof (cases "i < int (length newData)")
    case True
    have step: "clearLoop i newData = clearLoop (i + 4) (setElem newData (i + 3) (Some 0))"
      using True by (subst clearLoop.simps) simp
    have ih: "clearLoop (i + 4) (setElem newData (i + 3) (Some 0)) ! k =
      (if i + 4 + 3 \<le> int k \<and> (int k - (i + 4)) mod 4 = 3 then 0
       else setElem newData (i + 3) (Some 0) ! k)"
      using "1.IH" [OF True] "1.prems" by simp
    have arith: "(i + 4 + 3 \<le> int k \<and> (int k - (i + 4)) mod 4 = 3) \<or> i + 3 = int k
      \<longleftrightarrow> i + 3 \<le> int k \<and> (int k - i) mod 4 = 3"
      by presburger
    show ?thesis
      unfolding step ih using arith "1.prems" by (auto simp: setElem_nth)
  next
    case False
    then have "clearLoop i newData = newData"
      by (subst clearLoop.simps) simp
    with False "1.prems" show ?thesis by auto
  qed
qed

subsection \<open>One pixel\<close>

lemma length_copyPixel [simp]: "length (copyPixel data width x y newData) = length newData"
  by (simp add: copyPixel_def Let_def)

lemma length_pixelBody [simp]:
  "length (pixelBody N data width height intensity frequency pattern x y newData) = length newData"
  by (simp add: pixelBody_def)

lemma copyPixel_nth:
  assumes "length data = length newData" and "k < length newData" and "0 \<le> y * width + x"
  shows "copyPixel data width x y newData ! k =
           (if int k div 4 = y * width + x then data ! k else newData ! k)"
proof -
  define p where "p = y * width + x"
  have cases4: "int k div 4 = p \<longleftrightarrow> int k = p * 4 \<or> int k = p * 4 + 1 \<or> int k = p * 4 + 2 \<or> int k = p * 4 + 3"
    by presburger
  show ?thesis
  proof (cases "p * 4 < int (length data)")
    case True
    then show ?thesis
      using assms cases4 unfolding copyPixel_def Let_def p_def [symmetric]
      by (auto simp: setElem_nth getElem_def)
  next
    case False
    then have "int k div 4 \<noteq> p" using assms(1,2) by presburger
    with False show ?thesis
      using assms unfolding copyPixel_def Let_def p_def [symmetric] by simp
  qed
qed


lemma pixelBody_nth:
  assumes "length data = length newData" and "k < length newData" and "0 \<le> y * width + x"
  shows "pixelBody N data width height intensity frequency pattern x y newData ! k =
           (if int k div 4 = y * width + x \<and>
               shouldInclude N x y width height intensity frequency pattern
            then data ! k else newData ! k)"
  using copyPixel_nth [OF assms] by (simp add: pixelBody_def)
lemma minDistFromEdge_nonneg:
  "0 \<le> x \<Longrightarrow> x < width \<Longrightarrow> 0 \<le> y \<Longrightarrow> y < height \<Longrightarrow> 0 \<le> minDistFromEdge x y width height"
  by (simp add: minDistFromEdge_def Let_def)

lemma shouldInclude_interior:
  "num_mul N intensity (num_lit N 2) \<le> real_of_int (minDistFromEdge x y width height) \<Longrightarrow>
   shouldInclude N x y width height intensity frequency pattern"
  by (simp add: shouldInclude_def Let_def)

lemma shouldInclude_border:
  "real_of_int (minDistFromEdge x y width height) < num_mul N intensity (num_lit N 2) \<Longrightarrow>
   shouldInclude N x y width height intensity frequency pattern =
     (\<not> num_add N (real_of_int (minDistFromEdge x y width height))
          (num_mul N
             (num_mul N (waveValue N pattern x y frequency)
                (num_sub N intensity (real_of_int (minDistFromEdge x y width height))))
             (num_lit N 0.3))
        < num_mul N intensity (num_lit N 0.8))"
  by (simp add: shouldInclude_def Let_def)

subsection \<open>The loops\<close>

lemma length_xLoop [simp]:
  "length (xLoop N data width height intensity frequency pattern y x newData) = length newData"
proof (induction N data width height intensity frequency pattern y x newData rule: xLoop.induct)
  case (1 N data width height intensity frequency pattern y x newData)
  then show ?case by (subst xLoop.simps) simp
qed

lemma length_yLoop [simp]:
  "length (yLoop N data width height intensity frequency pattern y newData) = length newData"
proof (induction N data width height intensity frequency pattern y newData rule: yLoop.induct)
  case (1 N data width height intensity frequency pattern y newData)
  then show ?case by (subst yLoop.simps) simp
qed

lemma xLoop_nth:
  "length data = length newData \<Longrightarrow> k < length newData \<Longrightarrow> 0 \<le> x \<Longrightarrow> 0 \<le> y \<Longrightarrow>
   xLoop N data width height intensity frequency pattern y x newData ! k =
     (if x \<le> int k div 4 - y * width \<and> int k div 4 - y * width < width \<and>
         shouldInclude N (int k div 4 - y * width) y width height intensity frequency pattern
      then data ! k else newData ! k)"
proof (induction N data width height intensity frequency pattern y x newData rule: xLoop.induct)
  case (1 N data width height intensity frequency pattern y x newData)
  let ?body = "pixelBody N data width height intensity frequency pattern x y newData"
  show ?case
  proof (cases "x < width")
    case True
    have step: "xLoop N data width height intensity frequency pattern y x newData =
                xLoop N data width height intensity frequency pattern y (x + 1) ?body"
      using True by (subst xLoop.simps) simp
    have nonneg: "0 \<le> y * width + x"
      using True "1.prems" by simp
    have ih: "xLoop N data width height intensity frequency pattern y (x + 1) ?body ! k =
      (if x + 1 \<le> int k div 4 - y * width \<and> int k div 4 - y * width < width \<and>
          shouldInclude N (int k div 4 - y * width) y width height intensity frequency pattern
       then data ! k else ?body ! k)"
      using "1.IH" [OF True] "1.prems" by simp
    have body: "?body ! k =
      (if int k div 4 = y * width + x \<and>
          shouldInclude N x y width height intensity frequency pattern
       then data ! k else newData ! k)"
      using pixelBody_nth [OF "1.prems"(1,2) nonneg] .
    have here: "int k div 4 = y * width + x \<longleftrightarrow> int k div 4 - y * width = x"
      by linarith
    show ?thesis
    proof (cases "int k div 4 - y * width = x")
      case at: True
      then show ?thesis unfolding step ih body here using True by simp
    next
      case notat: False
      then show ?thesis unfolding step ih body here using True by auto
    qed
  next
    case False
    then have "xLoop N data width height intensity frequency pattern y x newData = newData"
      by (subst xLoop.simps) simp
    with False show ?thesis by auto
  qed
qed

lemma row_of_index:
  fixes p w y :: int
  assumes "0 < w"
  shows "(0 \<le> p - y * w \<and> p - y * w < w) \<longleftrightarrow> p div w = y"
proof
  assume a: "0 \<le> p - y * w \<and> p - y * w < w"
  show "p div w = y"
    using int_div_pos_eq [of p w y "p - y * w"] a by simp
next
  assume b: "p div w = y"
  have "p = (p div w) * w + p mod w" by simp
  then have "p - y * w = p mod w" using b by simp
  then show "0 \<le> p - y * w \<and> p - y * w < w" using assms by simp
qed

lemma yLoop_nth:
  "length data = length newData \<Longrightarrow> k < length newData \<Longrightarrow> 0 \<le> y \<Longrightarrow> 0 < width \<Longrightarrow>
   yLoop N data width height intensity frequency pattern y newData ! k =
     (if y \<le> (int k div 4) div width \<and> (int k div 4) div width < height \<and>
         shouldInclude N ((int k div 4) mod width) ((int k div 4) div width)
           width height intensity frequency pattern
      then data ! k else newData ! k)"
proof (induction N data width height intensity frequency pattern y newData rule: yLoop.induct)
  case (1 N data width height intensity frequency pattern y newData)
  let ?row = "xLoop N data width height intensity frequency pattern y 0 newData"
  let ?p = "int k div 4"
  show ?case
  proof (cases "y < height")
    case True
    have step: "yLoop N data width height intensity frequency pattern y newData =
                yLoop N data width height intensity frequency pattern (y + 1) ?row"
      using True by (subst yLoop.simps) simp
    have ih: "yLoop N data width height intensity frequency pattern (y + 1) ?row ! k =
      (if y + 1 \<le> ?p div width \<and> ?p div width < height \<and>
          shouldInclude N (?p mod width) (?p div width) width height intensity frequency pattern
       then data ! k else ?row ! k)"
      using "1.IH" [OF True] "1.prems" by simp
    have row: "?row ! k =
      (if 0 \<le> ?p - y * width \<and> ?p - y * width < width \<and>
          shouldInclude N (?p - y * width) y width height intensity frequency pattern
       then data ! k else newData ! k)"
      using xLoop_nth [OF "1.prems"(1,2) _ "1.prems"(3), of 0] by simp
    have inrow: "(0 \<le> ?p - y * width \<and> ?p - y * width < width) \<longleftrightarrow> ?p div width = y"
      using row_of_index [OF "1.prems"(4)] .
    have col: "?p div width = y \<Longrightarrow> ?p - y * width = ?p mod width"
      by (metis minus_div_mult_eq_mod)
    show ?thesis
    proof (cases "?p div width = y")
      case here: True
      then show ?thesis
        unfolding step ih row using True inrow col [OF here] by auto
    next
      case there: False
      then show ?thesis
        unfolding step ih row using True inrow by auto
    qed
  next
    case False
    then have "yLoop N data width height intensity frequency pattern y newData = newData"
      by (subst yLoop.simps) simp
    with False show ?thesis by auto
  qed
qed

subsection \<open>Index arithmetic\<close>

lemma pixel_index_bounds:
  fixes x y width height :: int
  assumes "0 \<le> x" "x < width" "0 \<le> y" "y < height"
  shows "0 \<le> y * width + x" and "(y * width + x) * 4 + 4 \<le> 4 * width * height"
proof -
  show "0 \<le> y * width + x" using assms by simp
  have "y * width \<le> (height - 1) * width"
    using assms by (intro mult_right_mono) simp_all
  then have "y * width + x < height * width"
    using assms by (simp add: algebra_simps)
  then show "(y * width + x) * 4 + 4 \<le> 4 * width * height"
    by (simp add: algebra_simps)
qed

lemma nat_index_le:
  fixes p :: int
  assumes "0 \<le> p" and "p * 4 + 4 \<le> int n"
  shows "nat (p * 4) + 4 \<le> n"
  using assms by linarith

lemma pixel_of_index:
  fixes x y width :: int and j :: nat
  assumes "0 \<le> x" "x < width" "0 \<le> y" "j < 4"
  shows "int (nat ((y * width + x) * 4) + j) div 4 = y * width + x"
    and "(y * width + x) div width = y"
    and "(y * width + x) mod width = x"
    and "int (nat ((y * width + x) * 4) + j) mod 4 = int j"
proof -
  define p where "p = y * width + x"
  have nn: "0 \<le> p" using assms by (simp add: p_def)
  have eq: "int (nat (p * 4) + j) = p * 4 + int j" using nn by simp
  show "int (nat ((y * width + x) * 4) + j) div 4 = y * width + x"
    unfolding p_def [symmetric] eq using assms(4) by simp
  show "int (nat ((y * width + x) * 4) + j) mod 4 = int j"
    unfolding p_def [symmetric] eq using assms(4) by simp
  show "(y * width + x) div width = y" using assms by simp
  show "(y * width + x) mod width = x" using assms by simp
qed

lemma row_in_range:
  fixes k :: nat and width height :: int
  assumes "0 < width" and "int k < 4 * width * height"
  shows "0 \<le> (int k div 4) div width" and "(int k div 4) div width < height"
    and "0 \<le> (int k div 4) mod width" and "(int k div 4) mod width < width"
proof -
  define p where "p = int k div 4"
  define n where "n = width * height"
  have "int k < 4 * n" using assms(2) by (simp add: n_def mult.assoc)
  then have pn: "p < n" unfolding p_def by presburger
  have p0: "0 \<le> p" unfolding p_def by simp
  show "0 \<le> (int k div 4) div width"
    using assms(1) p0 unfolding p_def [symmetric] by (simp add: pos_imp_zdiv_nonneg_iff)
  show "(int k div 4) div width < height"
  proof (rule ccontr)
    assume "\<not> (int k div 4) div width < height"
    then have "height \<le> p div width" by (simp add: p_def)
    then have "height * width \<le> (p div width) * width"
      using assms(1) by (intro mult_right_mono) simp_all
    moreover have "0 \<le> p mod width" using assms(1) by simp
    moreover have "p = (p div width) * width + p mod width" by simp
    ultimately have "height * width \<le> p" by linarith
    then show False using pn by (simp add: n_def mult.commute)
  qed
  show "0 \<le> (int k div 4) mod width" using assms(1) by simp
  show "(int k div 4) mod width < width" using assms(1) by simp
qed

subsection \<open>The output buffer\<close>

lemma filled_nth:
  assumes "length data = length newData" and "k < length newData" and "0 < width"
  shows "yLoop N data width height intensity frequency pattern 0 (clearLoop 0 newData) ! k =
     (if (int k div 4) div width < height \<and>
         shouldInclude N ((int k div 4) mod width) ((int k div 4) div width)
           width height intensity frequency pattern
      then data ! k
      else if int k mod 4 = 3 then 0 else newData ! k)"
proof -
  have rows: "0 \<le> (int k div 4) div width"
    using assms(3) by (simp add: pos_imp_zdiv_nonneg_iff)
  have cl: "clearLoop 0 newData ! k = (if int k mod 4 = 3 then 0 else newData ! k)"
    using clearLoop_nth [of 0 k newData] assms(2) by auto
  show ?thesis
    using yLoop_nth [of data "clearLoop 0 newData" k 0 width N height intensity frequency pattern]
      assms rows cl by simp
qed

lemma filled_pixel:
  assumes len: "int (length data) = 4 * width * height" "length newData = length data"
    and xy: "0 \<le> x" "x < width" "0 \<le> y" "y < height"
  shows "take 4 (drop (nat ((y * width + x) * 4))
           (yLoop N data width height intensity frequency pattern 0 (clearLoop 0 newData))) =
         (if shouldInclude N x y width height intensity frequency pattern
          then take 4 (drop (nat ((y * width + x) * 4)) data)
          else take 3 (drop (nat ((y * width + x) * 4)) newData) @ [0])"
    (is "take 4 (drop ?i ?out) = ?rhs")
proof -
  have w: "0 < width" using xy by simp
  have nn: "0 \<le> y * width + x" and up: "(y * width + x) * 4 + 4 \<le> 4 * width * height"
    using pixel_index_bounds [OF xy] by simp_all
  have inr: "?i + 4 \<le> length data"
    using nat_index_le [OF nn] up len(1) by simp
  have lout: "length ?out = length data" using len(2) by simp
  have nth: "?out ! (?i + j) =
      (if shouldInclude N x y width height intensity frequency pattern then data ! (?i + j)
       else if int j = 3 then 0 else newData ! (?i + j))" if "j < 4" for j
  proof -
    have k: "?i + j < length newData" using inr that len(2) by simp
    show ?thesis
      using filled_nth [OF len(2) [symmetric] k w, of N height intensity frequency pattern]
        pixel_of_index [OF xy(1,2,3) that] xy(4)
      by simp
  qed
  show ?thesis
  proof (rule nth_equalityI)
    show "length (take 4 (drop ?i ?out)) = length ?rhs"
      using inr lout len(2) by simp
  next
    fix j assume "j < length (take 4 (drop ?i ?out))"
    then have j: "j < 4" by simp
    then have cases: "j = 0 \<or> j = 1 \<or> j = 2 \<or> j = 3" by linarith
    have "take 4 (drop ?i ?out) ! j = ?out ! (?i + j)"
      using j inr lout by simp
    also have "\<dots> = ?rhs ! j"
      using nth [OF j] j inr len(2) cases by (auto simp: nth_append)
    finally show "take 4 (drop ?i ?out) ! j = ?rhs ! j" .
  qed
qed

lemma createRippleEffect_Inr:
  assumes "getImageData ctx 0 0 width height = Inr imageData"
    and "createImageData ctx width height = Inr newImageData"
  shows "createRippleEffect N ctx width height intensity frequency pattern =
     Inr (newImageData\<lparr>img_data :=
       yLoop N (img_data imageData) width height intensity frequency pattern 0
         (clearLoop 0 (img_data newImageData))\<rparr>)"
  using assms by (simp add: createRippleEffect_def Let_def)

lemma output_pixel:
  assumes cp: "canvasProvides ctx width height imageData newImageData"
    and xy: "0 \<le> x" "x < width" "0 \<le> y" "y < height"
  shows "\<exists>out. createRippleEffect N ctx width height intensity frequency pattern = Inr out \<and>
           img_width out = width \<and> img_height out = height \<and>
           pixelAt out x y =
             (if shouldInclude N x y width height intensity frequency pattern
              then pixelAt imageData x y else [0, 0, 0, 0])"
proof -
  let ?data = "img_data imageData" and ?new = "img_data newImageData"
  let ?i = "nat ((y * width + x) * 4)"
  have g: "getImageData ctx 0 0 width height = Inr imageData"
    and c: "createImageData ctx width height = Inr newImageData"
    and wi: "img_width imageData = width" and wn: "img_width newImageData = width"
    and hn: "img_height newImageData = height"
    and li: "int (length ?data) = 4 * width * height"
    and ln: "int (length ?new) = 4 * width * height"
    and tb: "?new = replicate (length ?new) 0"
    using cp by (simp_all add: canvasProvides_def wellFormed_def transparentBlack_def)
  have len: "length ?new = length ?data" using li ln by linarith
  have up: "(y * width + x) * 4 + 4 \<le> 4 * width * height" and nn: "0 \<le> y * width + x"
    using pixel_index_bounds [OF xy] by simp_all
  have inr: "?i + 4 \<le> length ?new" using nat_index_le [OF nn] up ln by simp
  have "take 3 (drop ?i ?new) = take 3 (drop ?i (replicate (length ?new) 0))"
    using tb by simp
  also have "\<dots> = replicate 3 0" using inr by simp
  finally have blank: "take 3 (drop ?i ?new) @ [0] = [0, 0, 0, 0]"
    by (simp add: numeral_3_eq_3)
  show ?thesis
    unfolding createRippleEffect_Inr [OF g c]
    using filled_pixel [OF li len xy, of N intensity frequency pattern] blank wi wn hn
    by (simp add: pixelAt_def)
qed

lemma output_bytes:
  assumes cp: "canvasProvides ctx width height imageData newImageData"
    and w: "0 < width"
  shows "\<exists>out. createRippleEffect N ctx width height intensity frequency pattern = Inr out \<and>
           img_width out = width \<and> img_height out = height \<and>
           length (img_data out) = length (img_data imageData) \<and>
           (\<forall>k < length (img_data out). img_data out ! k =
              (if shouldInclude N ((int k div 4) mod width) ((int k div 4) div width)
                    width height intensity frequency pattern
               then img_data imageData ! k else 0))"
proof -
  let ?data = "img_data imageData" and ?new = "img_data newImageData"
  let ?out = "yLoop N ?data width height intensity frequency pattern 0 (clearLoop 0 ?new)"
  have g: "getImageData ctx 0 0 width height = Inr imageData"
    and c: "createImageData ctx width height = Inr newImageData"
    and wn: "img_width newImageData = width"
    and hn: "img_height newImageData = height"
    and li: "int (length ?data) = 4 * width * height"
    and ln: "int (length ?new) = 4 * width * height"
    and tb: "?new = replicate (length ?new) 0"
    using cp by (simp_all add: canvasProvides_def wellFormed_def transparentBlack_def)
  have len: "length ?data = length ?new" using li ln by linarith
  have bytes: "?out ! k =
      (if shouldInclude N ((int k div 4) mod width) ((int k div 4) div width)
            width height intensity frequency pattern
       then ?data ! k else 0)" if k: "k < length ?new" for k
  proof -
    have "int k < 4 * width * height" using k ln by linarith
    then have row: "(int k div 4) div width < height"
      using row_in_range(2) [OF w] by simp
    have "?new ! k = replicate (length ?new) 0 ! k" using tb by simp
    then have zero: "?new ! k = 0" using k by simp
    show ?thesis
      using filled_nth [OF len k w, of N height intensity frequency pattern] row zero by simp
  qed
  show ?thesis
    unfolding createRippleEffect_Inr [OF g c]
    using bytes wn hn len by simp
qed

lemma testCanvas_provides:
  "0 < w \<Longrightarrow> 0 < h \<Longrightarrow> int (length pixels) = 4 * w * h \<Longrightarrow>
   canvasProvides (testCanvas w h pixels) w h
     \<lparr>img_width = w, img_height = h, img_data = pixels\<rparr>
     \<lparr>img_width = w, img_height = h, img_data = replicate (nat (4 * w * h)) 0\<rparr>"
  by (simp add: canvasProvides_def testCanvas_def wellFormed_def transparentBlack_def)


subsection \<open>Evaluating binary64 arithmetic\<close>

lemma roundHalfEven_eqI:
  assumes "\<bar>r - of_int n\<bar> < 1/2"
  shows "roundHalfEven r = n"
proof -
  have lo: "of_int n - 1/2 < r" and hi: "r < of_int n + 1/2"
    using assms by linarith+
  show ?thesis
  proof (cases "of_int n \<le> r")
    case True
    then have f: "\<lfloor>r\<rfloor> = n" using hi by (intro floor_unique) simp_all
    show ?thesis using hi by (simp add: roundHalfEven_def f Let_def)
  next
    case False
    then have f: "\<lfloor>r\<rfloor> = n - 1" using lo by (intro floor_unique) simp_all
    show ?thesis using lo False by (simp add: roundHalfEven_def f Let_def)
  qed
qed

text \<open>
  A value of binary exponent \<open>e\<close> that lies within half a unit in the last place of
  \<open>n\<close> units rounds to \<open>n\<close> units.
\<close>

lemma round64_eqI:
  assumes "- 1022 \<le> e"
    and "2 powi e \<le> \<bar>v\<bar>" and "\<bar>v\<bar> < 2 powi (e + 1)"
    and "\<bar>v / 2 powi (e - 52) - of_int n\<bar> < 1/2"
  shows "round64 v = of_int n * 2 powi (e - 52)"
proof -
  have "0 < (2::real) powi e" by simp
  then have pos: "0 < \<bar>v\<bar>"
    using assms(2) by linarith
  then have nz: "v \<noteq> 0" by simp
  have a: "2 powr (real_of_int e) = (2::real) powi e"
    using powr_real_of_int' [of 2 e] by simp
  have "2 powr (real_of_int (e + 1)) = (2::real) powi (e + 1)"
    using powr_real_of_int' [of 2 "e + 1"] by simp
  then have b: "2 powr (real_of_int e + 1) = (2::real) powi (e + 1)"
    by (simp only: of_int_add of_int_1)
  have "2 powr (real_of_int e) \<le> \<bar>v\<bar> \<and> \<bar>v\<bar> < 2 powr (real_of_int e + 1)"
    unfolding a b using assms(2,3) by (intro conjI)
  then have "\<lfloor>log 2 \<bar>v\<bar>\<rfloor> = e"
    using pos by (simp add: floor_log_eq_powr_iff)
  then have e: "max \<lfloor>log 2 \<bar>v\<bar>\<rfloor> (- 1022) = e" using assms(1) by simp
  show ?thesis
    using nz roundHalfEven_eqI [OF assms(4)] by (simp add: round64_def e Let_def)
qed

lemma round64_0 [simp]: "round64 0 = 0"
  by (simp add: round64_def)

lemma round64_1 [simp]: "round64 1 = 1"
  using round64_eqI [of 0 1 "2 ^ 52"] by simp

lemma round64_2 [simp]: "round64 2 = 2"
  using round64_eqI [of 1 2 "2 ^ 52"] by simp

lemma binary64_mul_0 [simp]: "num_mul binary64 0 b = 0" "num_mul binary64 a 0 = 0"
  by (simp_all add: binary64_def)

lemma binary64_lit_2: "num_lit binary64 2 = 2"
  by (simp add: binary64_def)

text \<open>The doubles that the literals \<^verbatim>\<open>0.3\<close> and \<^verbatim>\<open>0.8\<close> denote.\<close>

lemma binary64_lit_03: "num_lit binary64 0.3 = 5404319552844595 / 2 ^ 54"
  using round64_eqI [of "- 2" "3 / 10" 5404319552844595] by (simp add: binary64_def)

lemma binary64_lit_08: "num_lit binary64 0.8 = 7205759403792794 / 2 ^ 53"
  using round64_eqI [of "- 1" "8 / 10" 7205759403792794] by (simp add: binary64_def)

text \<open>At frequency 0 every argument of a sine or cosine is 0.\<close>

lemma waveValue_binary64_frequency_0:
  "waveValue binary64 pattern x y 0 =
     (if pattern = ''gothic'' \<or> pattern = ''flame'' \<or> pattern = ''thorns'' then 0 else 1)"
  by (simp add: waveValue_def binary64_def)

text \<open>
  Intensity 7 at edge distance 5 with wave value 1: \<^verbatim>\<open>7 * 2\<close>, \<^verbatim>\<open>7 - 5\<close>, \<^verbatim>\<open>1 * 2\<close>,
  \<^verbatim>\<open>2 * 0.3\<close>, \<^verbatim>\<open>5 + 0.6\<close> and \<^verbatim>\<open>7 * 0.8\<close>. The last two are 5.6 and 5.6000000000000005.
\<close>

lemma binary64_intensity_7:
  "num_mul binary64 7 2 = 14"
  "num_sub binary64 7 5 = 2"
  "num_mul binary64 1 2 = 2"
  "num_mul binary64 2 (5404319552844595 / 2 ^ 54) = 5404319552844595 / 2 ^ 53"
  "num_add binary64 5 (5404319552844595 / 2 ^ 53) = 6305039478318694 / 2 ^ 50"
  "num_mul binary64 7 (7205759403792794 / 2 ^ 53) = 6305039478318695 / 2 ^ 50"
proof -
  show "num_mul binary64 7 2 = 14"
    using round64_eqI [of 3 14 "7 * 2 ^ 50"] by (simp add: binary64_def)
  show "num_sub binary64 7 5 = 2" "num_mul binary64 1 2 = 2"
    by (simp_all add: binary64_def)
  show "num_mul binary64 2 (5404319552844595 / 2 ^ 54) = 5404319552844595 / 2 ^ 53"
    using round64_eqI [of "- 1" "2 * (5404319552844595 / 2 ^ 54)" 5404319552844595]
    by (simp add: binary64_def)
  show "num_add binary64 5 (5404319552844595 / 2 ^ 53) = 6305039478318694 / 2 ^ 50"
    using round64_eqI [of 2 "5 + 5404319552844595 / 2 ^ 53" 6305039478318694]
    by (simp add: binary64_def)
  show "num_mul binary64 7 (7205759403792794 / 2 ^ 53) = 6305039478318695 / 2 ^ 50"
    using round64_eqI [of 2 "7 * (7205759403792794 / 2 ^ 53)" 6305039478318695]
    by (simp add: binary64_def)
qed

text \<open>
  Intensity 4 at edge distance 3 with wave value 1: \<^verbatim>\<open>4 * 2\<close>, \<^verbatim>\<open>4 - 3\<close>, \<^verbatim>\<open>1 * 1\<close>,
  \<^verbatim>\<open>1 * 0.3\<close>, \<^verbatim>\<open>3 + 0.3\<close> and \<^verbatim>\<open>4 * 0.8\<close>. The last two are 3.3 and 3.2.
\<close>

lemma binary64_intensity_4:
  "num_mul binary64 4 2 = 8"
  "num_sub binary64 4 3 = 1"
  "num_mul binary64 1 1 = 1"
  "num_mul binary64 1 (5404319552844595 / 2 ^ 54) = 5404319552844595 / 2 ^ 54"
  "num_add binary64 3 (5404319552844595 / 2 ^ 54) = 7430939385161318 / 2 ^ 51"
  "num_mul binary64 4 (7205759403792794 / 2 ^ 53) = 7205759403792794 / 2 ^ 51"
proof -
  show "num_mul binary64 4 2 = 8"
    using round64_eqI [of 3 8 "2 ^ 52"] by (simp add: binary64_def)
  show "num_sub binary64 4 3 = 1" "num_mul binary64 1 1 = 1"
    by (simp_all add: binary64_def)
  show "num_mul binary64 1 (5404319552844595 / 2 ^ 54) = 5404319552844595 / 2 ^ 54"
    using round64_eqI [of "- 2" "5404319552844595 / 2 ^ 54" 5404319552844595]
    by (simp add: binary64_def)
  show "num_add binary64 3 (5404319552844595 / 2 ^ 54) = 7430939385161318 / 2 ^ 51"
    using round64_eqI [of 1 "3 + 5404319552844595 / 2 ^ 54" 7430939385161318]
    by (simp add: binary64_def)
  show "num_mul binary64 4 (7205759403792794 / 2 ^ 53) = 7205759403792794 / 2 ^ 51"
    using round64_eqI [of 1 "4 * (7205759403792794 / 2 ^ 53)" 7205759403792794]
    by (simp add: binary64_def)
qed

text \<open>Intensity 20 at edge distance 0 with wave value 0: \<^verbatim>\<open>20 * 2\<close> and \<^verbatim>\<open>20 * 0.8\<close>.\<close>

lemma binary64_intensity_20:
  "num_mul binary64 20 2 = 40"
  "num_mul binary64 20 (7205759403792794 / 2 ^ 53) = 16"
  "num_add binary64 0 0 = 0"
proof -
  show "num_mul binary64 20 2 = 40"
    using round64_eqI [of 5 40 "5 * 2 ^ 50"] by (simp add: binary64_def)
  show "num_mul binary64 20 (7205759403792794 / 2 ^ 53) = 16"
    using round64_eqI [of 4 "20 * (7205759403792794 / 2 ^ 53)" "2 ^ 52"]
    by (simp add: binary64_def)
  show "num_add binary64 0 0 = 0"
    by (simp add: binary64_def)
qed

text \<open>Rounding keeps a value that is not positive from becoming positive.\<close>

lemma roundHalfEven_nonpos:
  assumes "r \<le> 0"
  shows "roundHalfEven r \<le> 0"
proof (cases "\<lfloor>r\<rfloor> = 0")
  case True
  then have "0 \<le> r" by (simp add: floor_eq_iff)
  then have "r = 0" using assms by simp
  then show ?thesis by (simp add: roundHalfEven_def)
next
  case False
  moreover have "\<lfloor>r\<rfloor> \<le> 0" using assms by (simp add: floor_le_iff)
  ultimately have "\<lfloor>r\<rfloor> + 1 \<le> 0" by linarith
  then show ?thesis by (simp add: roundHalfEven_def Let_def)
qed

lemma round64_nonpos:
  assumes "v \<le> 0"
  shows "round64 v \<le> 0"
proof (cases "v = 0")
  case True
  then show ?thesis by simp
next
  case False
  define ulp :: real where "ulp = 2 powi (max \<lfloor>log 2 \<bar>v\<bar>\<rfloor> (- 1022) - 52)"
  have u: "0 < ulp" by (simp add: ulp_def)
  then have "v / ulp \<le> 0" using assms by (simp add: divide_nonpos_pos)
  then have "real_of_int (roundHalfEven (v / ulp)) \<le> 0"
    using roundHalfEven_nonpos by simp
  then have "real_of_int (roundHalfEven (v / ulp)) * ulp \<le> 0"
    using u by (simp add: mult_nonpos_nonneg)
  then show ?thesis
    using False by (simp add: round64_def Let_def ulp_def)
qed

lemma binary64_double_nonpos:
  "v \<le> 0 \<Longrightarrow> num_mul binary64 v (num_lit binary64 2) \<le> 0"
  by (simp add: binary64_def round64_nonpos mult_nonpos_nonneg)

text \<open>The decision at the three points of the examples.\<close>

lemma discard_at_intensity_7:
  assumes "pattern \<notin> {''gothic'', ''flame'', ''thorns''}"
  shows "\<not> shouldInclude binary64 5 5 10 10 7 0 pattern"
proof -
  have m: "minDistFromEdge 5 5 10 10 = 5" by (simp add: minDistFromEdge_def)
  have w: "waveValue binary64 pattern 5 5 0 = 1"
    using assms by (simp add: waveValue_binary64_frequency_0)
  have five: "real_of_int 5 = 5" by simp
  have "shouldInclude binary64 5 5 10 10 7 0 pattern =
      (if (5::real) < 14
       then if (6305039478318694 / 2 ^ 50 :: real) < 6305039478318695 / 2 ^ 50
            then False else True
       else True)"
    unfolding shouldInclude_def Let_def m w five binary64_lit_2 binary64_lit_03
      binary64_lit_08 binary64_intensity_7 ..
  then show ?thesis by simp
qed

lemma keep_at_intensity_4:
  assumes "pattern \<notin> {''gothic'', ''flame'', ''thorns''}"
  shows "shouldInclude binary64 3 3 7 7 4 0 pattern"
proof -
  have m: "minDistFromEdge 3 3 7 7 = 3" by (simp add: minDistFromEdge_def)
  have w: "waveValue binary64 pattern 3 3 0 = 1"
    using assms by (simp add: waveValue_binary64_frequency_0)
  have three: "real_of_int 3 = 3" by simp
  have "shouldInclude binary64 3 3 7 7 4 0 pattern =
      (if (3::real) < 8
       then if (7430939385161318 / 2 ^ 51 :: real) < 7205759403792794 / 2 ^ 51
            then False else True
       else True)"
    unfolding shouldInclude_def Let_def m w three binary64_lit_2 binary64_lit_03
      binary64_lit_08 binary64_intensity_4 ..
  then show ?thesis by simp
qed

lemma discard_at_intensity_20:
  assumes "pattern \<in> {''gothic'', ''flame'', ''thorns''}"
  shows "\<not> shouldInclude binary64 0 0 1 1 20 0 pattern"
proof -
  have m: "minDistFromEdge 0 0 1 1 = 0" by (simp add: minDistFromEdge_def)
  have w: "waveValue binary64 pattern 0 0 0 = 0"
    using assms by (auto simp add: waveValue_binary64_frequency_0)
  have zero: "real_of_int 0 = 0" by simp
  have "shouldInclude binary64 0 0 1 1 20 0 pattern =
      (if (0::real) < 40 then if (0::real) < 16 then False else True else True)"
    unfolding shouldInclude_def Let_def m w zero binary64_lit_2 binary64_lit_03
      binary64_lit_08 binary64_mul_0 binary64_intensity_20 ..
  then show ?thesis by simp
qed


section \<open>The claims of the specification\<close>

text \<open>
  The theorems about the whole filter assume \<open>canvasProvides\<close>: both canvas calls
  succeed and return images of the requested shape, the new one transparent black.
  They hold for every arithmetic \<open>N\<close>; the examples after them are computed in
  \<open>binary64\<close>.
\<close>

text \<open>
  Claim C1. Take a pixel \<open>(x, y)\<close> of the image whose edge distance \<open>m\<close> is below
  \<open>2 * intensity\<close> (the border zone). The filter discards it, leaving the output pixel
  fully transparent, exactly when
  \<open>m + waveValue * (intensity - m) * 0.3 < intensity * 0.8\<close>, with \<open>waveValue\<close> the selected
  pattern evaluated at \<open>(x, y, frequency)\<close> and the formula computed in doubles as the
  code computes it; otherwise the output pixel is the source pixel, all four channels,
  alpha included. The factor \<open>intensity - m\<close> is a difference of doubles and is not
  clamped at 0.
\<close>

theorem border_zone_decision:
  assumes "canvasProvides ctx width height imageData newImageData"
    and "0 \<le> x" "x < width" "0 \<le> y" "y < height"
    and "real_of_int (minDistFromEdge x y width height) < num_mul N intensity (num_lit N 2)"
  shows "\<exists>out. createRippleEffect N ctx width height intensity frequency pattern = Inr out \<and>
     (if num_add N (real_of_int (minDistFromEdge x y width height))
           (num_mul N
              (num_mul N (waveValue N pattern x y frequency)
                 (num_sub N intensity (real_of_int (minDistFromEdge x y width height))))
              (num_lit N 0.3))
         < num_mul N intensity (num_lit N 0.8)
      then \<not> shouldInclude N x y width height intensity frequency pattern \<and>
           pixelAt out x y = [0, 0, 0, 0]
      else shouldInclude N x y width height intensity frequency pattern \<and>
           pixelAt out x y = pixelAt imageData x y)"
proof -
  obtain out where out:
    "createRippleEffect N ctx width height intensity frequency pattern = Inr out"
    "pixelAt out x y =
       (if shouldInclude N x y width height intensity frequency pattern
        then pixelAt imageData x y else [0, 0, 0, 0])"
    using output_pixel [OF assms(1-5)] by blast
  show ?thesis
    using out shouldInclude_border [OF assms(6), of frequency pattern] by auto
qed

text \<open>
  Two border pixels at frequency 0 with the pattern \<^verbatim>\<open>organic\<close>, whose wave value is 1
  there. Pixel \<open>(5, 5)\<close> of a 10 by 10 image at intensity 7 is discarded, since
  \<^verbatim>\<open>5 + 1 * (7 - 5) * 0.3\<close> is 5.6 and \<^verbatim>\<open>7 * 0.8\<close> is 5.6000000000000005. Pixel
  \<open>(3, 3)\<close> of a 7 by 7 image at intensity 4 is kept, since \<^verbatim>\<open>3 + 1 * (4 - 3) * 0.3\<close> is
  3.3 and \<^verbatim>\<open>4 * 0.8\<close> is 3.2.
\<close>

theorem border_zone_decision_witness:
  "(\<exists>out. createRippleEffect binary64 (testCanvas 10 10 (replicate 400 255)) 10 10 7 0
             ''organic'' = Inr out \<and>
          pixelAt out 5 5 = [0, 0, 0, 0]) \<and>
   (\<exists>out. createRippleEffect binary64 (testCanvas 7 7 (replicate 196 255)) 7 7 4 0
             ''organic'' = Inr out \<and>
          pixelAt out 3 3 = [255, 255, 255, 255])"
proof
  have cp: "canvasProvides (testCanvas 10 10 (replicate 400 255)) 10 10
     \<lparr>img_width = 10, img_height = 10, img_data = replicate 400 255\<rparr>
     \<lparr>img_width = 10, img_height = 10, img_data = replicate (nat (4 * 10 * 10)) 0\<rparr>"
    by (rule testCanvas_provides) simp_all
  have zone: "real_of_int (minDistFromEdge 5 5 10 10) < num_mul binary64 7 (num_lit binary64 2)"
    by (simp add: minDistFromEdge_def binary64_lit_2 binary64_intensity_7)
  have no: "\<not> shouldInclude binary64 5 5 10 10 7 0 ''organic''"
    by (rule discard_at_intensity_7) simp
  show "\<exists>out. createRippleEffect binary64 (testCanvas 10 10 (replicate 400 255)) 10 10 7 0
             ''organic'' = Inr out \<and>
          pixelAt out 5 5 = [0, 0, 0, 0]"
    using border_zone_decision [OF cp _ _ _ _ zone, where frequency = 0
        and pattern = "''organic''"] no
    by (auto split: if_splits)
next
  have cp: "canvasProvides (testCanvas 7 7 (replicate 196 255)) 7 7
     \<lparr>img_width = 7, img_height = 7, img_data = replicate 196 255\<rparr>
     \<lparr>img_width = 7, img_height = 7, img_data = replicate (nat (4 * 7 * 7)) 0\<rparr>"
    by (rule testCanvas_provides) simp_all
  have zone: "real_of_int (minDistFromEdge 3 3 7 7) < num_mul binary64 4 (num_lit binary64 2)"
    by (simp add: minDistFromEdge_def binary64_lit_2 binary64_intensity_4)
  have yes: "shouldInclude binary64 3 3 7 7 4 0 ''organic''"
    by (rule keep_at_intensity_4) simp
  have src: "pixelAt \<lparr>img_width = 7, img_height = 7, img_data = replicate 196 255\<rparr> 3 3 =
       [255, 255, 255, 255]"
    by (simp add: pixelAt_def numeral_eq_Suc)
  show "\<exists>out. createRippleEffect binary64 (testCanvas 7 7 (replicate 196 255)) 7 7 4 0
             ''organic'' = Inr out \<and>
          pixelAt out 3 3 = [255, 255, 255, 255]"
    using border_zone_decision [OF cp _ _ _ _ zone, where frequency = 0
        and pattern = "''organic''"] yes src
    by (auto split: if_splits)
qed

text \<open>
  Claim C2. For every pixel coordinate and every frequency, the wave value the code
  computes for each of the four pattern tags is the formula of the specification's table
  for that pattern (sine and cosine in radians).
\<close>

theorem wave_matches_table:
  "waveValue N (patternTag p) x y f = specWave N p (real_of_int x) (real_of_int y) f"
  by (cases p) (simp_all add: waveValue_def patternTag_def specWave_def)

text \<open>
  Claim C3. A pixel whose edge distance is at least \<open>2 * intensity\<close> (the product as the
  code computes it) is kept unchanged: the output pixel equals the input pixel at the
  same coordinates in all four channels, for every pattern and every frequency.
\<close>

theorem interior_pixels_kept:
  assumes "canvasProvides ctx width height imageData newImageData"
    and "0 \<le> x" "x < width" "0 \<le> y" "y < height"
    and "num_mul N intensity (num_lit N 2) \<le> real_of_int (minDistFromEdge x y width height)"
  shows "\<exists>out. createRippleEffect N ctx width height intensity frequency pattern = Inr out \<and>
           pixelAt out x y = pixelAt imageData x y"
proof -
  have "shouldInclude N x y width height intensity frequency pattern"
    using assms(6) by (rule shouldInclude_interior)
  then show ?thesis
    using output_pixel [OF assms(1-5), of N intensity frequency pattern] by auto
qed

theorem interior_pixels_kept_witness:
  "\<exists>out. createRippleEffect binary64 (testCanvas 5 5 (replicate 100 7)) 5 5 1 (1/64)
            ''flame'' = Inr out \<and>
     pixelAt out 2 2 = [7, 7, 7, 7]"
proof -
  have cp: "canvasProvides (testCanvas 5 5 (replicate 100 7)) 5 5
     \<lparr>img_width = 5, img_height = 5, img_data = replicate 100 7\<rparr>
     \<lparr>img_width = 5, img_height = 5, img_data = replicate (nat (4 * 5 * 5)) 0\<rparr>"
    by (rule testCanvas_provides) simp_all
  have zone: "num_mul binary64 1 (num_lit binary64 2) \<le> real_of_int (minDistFromEdge 2 2 5 5)"
    by (simp add: minDistFromEdge_def binary64_lit_2 binary64_intensity_7)
  have src: "pixelAt \<lparr>img_width = 5, img_height = 5, img_data = replicate 100 7\<rparr> 2 2 =
       [7, 7, 7, 7]"
    by (simp add: pixelAt_def numeral_eq_Suc)
  show ?thesis
    using interior_pixels_kept [OF cp _ _ _ _ zone, where frequency = "1/64"
        and pattern = "''flame''"] src
    by simp
qed

text \<open>
  Claim C4. The edge distance the filter uses is \<open>min(x, width - x, y, height - y)\<close>, and
  the decision is taken on that value. The distances to the right and bottom borders are
  \<open>width - x\<close> and \<open>height - y\<close>, so in the last column and in the last row that distance
  is 1 and not 0: pixel \<open>(9, 5)\<close> and pixel \<open>(5, 9)\<close> of a 10 by 10 image have edge
  distance 1.
\<close>

theorem edge_distance_formula:
  "minDistFromEdge x y width height = Min {x, width - x, y, height - y} \<and>
   minDistFromEdge (width - 1) y width height = Min {width - 1, 1, y, height - y} \<and>
   minDistFromEdge x (height - 1) width height = Min {x, width - x, height - 1, 1} \<and>
   minDistFromEdge 9 5 10 10 = 1 \<and>
   minDistFromEdge 5 9 10 10 = 1 \<and>
   shouldInclude N x y width height intensity frequency pattern =
     (\<not> (real_of_int (Min {x, width - x, y, height - y}) < num_mul N intensity (num_lit N 2) \<and>
         num_add N (real_of_int (Min {x, width - x, y, height - y}))
           (num_mul N
              (num_mul N (waveValue N pattern x y frequency)
                 (num_sub N intensity (real_of_int (Min {x, width - x, y, height - y}))))
              (num_lit N 0.3))
         < num_mul N intensity (num_lit N 0.8)))"
proof -
  have a: "minDistFromEdge x y width height = Min {x, width - x, y, height - y}" for x y
    by (simp add: minDistFromEdge_def Let_def min.assoc)
  have b: "minDistFromEdge 9 5 10 10 = 1" "minDistFromEdge 5 9 10 10 = 1"
    by (simp_all add: minDistFromEdge_def)
  have c: "shouldInclude N x y width height intensity frequency pattern =
     (\<not> (real_of_int (minDistFromEdge x y width height) < num_mul N intensity (num_lit N 2) \<and>
         num_add N (real_of_int (minDistFromEdge x y width height))
           (num_mul N
              (num_mul N (waveValue N pattern x y frequency)
                 (num_sub N intensity (real_of_int (minDistFromEdge x y width height))))
              (num_lit N 0.3))
         < num_mul N intensity (num_lit N 0.8)))"
    by (simp add: shouldInclude_def Let_def)
  have r: "minDistFromEdge (width - 1) y width height = Min {width - 1, 1, y, height - y}"
    by (simp add: minDistFromEdge_def Let_def min.assoc)
  have d: "minDistFromEdge x (height - 1) width height = Min {x, width - x, height - 1, 1}"
    by (simp add: minDistFromEdge_def Let_def min.assoc)
  show ?thesis
    by (intro conjI a r d b c [unfolded a])
qed

text \<open>
  Claim C5. Every output pixel is either the source pixel at the same coordinates, copied
  channel by channel, or transparent black \<open>(0, 0, 0, 0)\<close>. In particular the output alpha
  is the source alpha or 0, and nothing is blended.
\<close>

theorem copy_or_transparent:
  assumes "canvasProvides ctx width height imageData newImageData"
    and "0 \<le> x" "x < width" "0 \<le> y" "y < height"
  shows "\<exists>out. createRippleEffect N ctx width height intensity frequency pattern = Inr out \<and>
           length (pixelAt out x y) = 4 \<and>
           (pixelAt out x y = pixelAt imageData x y \<or> pixelAt out x y = [0, 0, 0, 0]) \<and>
           (pixelAt out x y ! 3 = pixelAt imageData x y ! 3 \<or> pixelAt out x y ! 3 = 0)"
proof -
  obtain out where out:
    "createRippleEffect N ctx width height intensity frequency pattern = Inr out"
    "pixelAt out x y =
       (if shouldInclude N x y width height intensity frequency pattern
        then pixelAt imageData x y else [0, 0, 0, 0])"
    using output_pixel [OF assms] by blast
  have "int (length (img_data imageData)) = 4 * width * height"
    and wi: "img_width imageData = width"
    using assms(1) by (simp_all add: canvasProvides_def wellFormed_def)
  then have "nat ((y * width + x) * 4) + 4 \<le> length (img_data imageData)"
    using nat_index_le [OF pixel_index_bounds(1) [OF assms(2-5)]]
      pixel_index_bounds(2) [OF assms(2-5)] by simp
  then have "length (pixelAt imageData x y) = 4"
    using wi by (simp add: pixelAt_def)
  then show ?thesis using out by auto
qed

theorem copy_or_transparent_witness:
  "\<exists>out. createRippleEffect binary64 (testCanvas 2 2 (replicate 16 9)) 2 2 20 (1/64)
            ''gothic'' = Inr out \<and>
     (pixelAt out 1 0 = [9, 9, 9, 9] \<or> pixelAt out 1 0 = [0, 0, 0, 0])"
proof -
  have cp: "canvasProvides (testCanvas 2 2 (replicate 16 9)) 2 2
     \<lparr>img_width = 2, img_height = 2, img_data = replicate 16 9\<rparr>
     \<lparr>img_width = 2, img_height = 2, img_data = replicate (nat (4 * 2 * 2)) 0\<rparr>"
    by (rule testCanvas_provides) simp_all
  have src: "pixelAt \<lparr>img_width = 2, img_height = 2, img_data = replicate 16 9\<rparr> 1 0 =
       [9, 9, 9, 9]"
    by (simp add: pixelAt_def numeral_eq_Suc)
  show ?thesis
    using copy_or_transparent [OF cp, where x = 1 and y = 0 and N = binary64
        and intensity = 20 and frequency = "1/64" and pattern = "''gothic''"] src
    by auto
qed

text \<open>
  Claim C6 says that the filter reports an error (InvalidParameters or InvalidDimensions)
  for a frequency of 0 or below, an intensity below 1, a width or height of 0 or below, or
  an unknown pattern tag, instead of producing an output buffer. The code has no such check.
  With frequency 0 on a 1 by 1 white image it returns an output image, whose only pixel was
  discarded.
\<close>

theorem frequency_zero_accepted:
  "createRippleEffect binary64 (testCanvas 1 1 [255, 255, 255, 255]) 1 1 20 0 ''gothic'' =
     Inr \<lparr>img_width = 1, img_height = 1, img_data = [0, 0, 0, 0]\<rparr>"
proof -
  have cl: "clearLoop 0 [0, 0, 0, 0] = [0, 0, 0, 0]"
    by (simp add: clearLoop.simps setElem_def)
  have no: "\<not> shouldInclude binary64 0 0 1 1 20 0 ''gothic''"
    by (rule discard_at_intensity_20) simp
  have lp: "yLoop binary64 [255, 255, 255, 255] 1 1 20 0 ''gothic'' 0 [0, 0, 0, 0] =
      [0, 0, 0, 0]"
    using no by (simp add: yLoop.simps xLoop.simps pixelBody_def)
  show ?thesis
    by (simp add: createRippleEffect_def testCanvas_def Let_def numeral_eq_Suc cl lp)
qed

text \<open>
  Claim C6, as the code has it. The filter checks none of its parameters. Whatever the
  width, height, intensity, frequency and pattern tag, it reports an error exactly when
  one of its two canvas calls, \<^verbatim>\<open>getImageData(0, 0, width, height)\<close> or
  \<^verbatim>\<open>createImageData(width, height)\<close>, throws one, and returns an output image otherwise.
\<close>

theorem errors_only_from_canvas:
  "isl (createRippleEffect N ctx width height intensity frequency pattern) =
     (isl (getImageData ctx 0 0 width height) \<or> isl (createImageData ctx width height))"
  by (simp add: createRippleEffect_def Let_def split: sum.splits)

text \<open>
  Claim C7. For a pattern tag that is none of \<^verbatim>\<open>gothic\<close>, \<^verbatim>\<open>organic\<close>, \<^verbatim>\<open>flame\<close>,
  \<^verbatim>\<open>thorns\<close>, the filter does not fail: it returns an output image, and what it does with
  a pixel is decided with the wave value \<open>sin(x * f) + cos(y * f)\<close>. The pixel is
  transparent black when its edge distance \<open>m\<close> is below \<open>2 * intensity\<close> and
  \<open>m + (sin(x * f) + cos(y * f)) * (intensity - m) * 0.3 < intensity * 0.8\<close>, and the source
  pixel otherwise.
\<close>

theorem unknown_pattern_fallback:
  assumes "pattern \<notin> {''gothic'', ''organic'', ''flame'', ''thorns''}"
    and "canvasProvides ctx width height imageData newImageData"
    and "0 \<le> x" "x < width" "0 \<le> y" "y < height"
  shows "\<exists>out. createRippleEffect N ctx width height intensity frequency pattern = Inr out \<and>
     waveValue N pattern x y frequency =
       num_add N (Math_sin N (num_mul N (real_of_int x) frequency))
         (Math_cos N (num_mul N (real_of_int y) frequency)) \<and>
     pixelAt out x y =
       (if real_of_int (minDistFromEdge x y width height) < num_mul N intensity (num_lit N 2) \<and>
           num_add N (real_of_int (minDistFromEdge x y width height))
             (num_mul N
                (num_mul N
                   (num_add N (Math_sin N (num_mul N (real_of_int x) frequency))
                      (Math_cos N (num_mul N (real_of_int y) frequency)))
                   (num_sub N intensity (real_of_int (minDistFromEdge x y width height))))
                (num_lit N 0.3))
           < num_mul N intensity (num_lit N 0.8)
        then [0, 0, 0, 0]
        else pixelAt imageData x y)"
proof -
  have w: "waveValue N pattern x y frequency =
       num_add N (Math_sin N (num_mul N (real_of_int x) frequency))
         (Math_cos N (num_mul N (real_of_int y) frequency))"
    using assms(1) by (simp add: waveValue_def)
  obtain out where out:
    "createRippleEffect N ctx width height intensity frequency pattern = Inr out"
    "pixelAt out x y =
       (if shouldInclude N x y width height intensity frequency pattern
        then pixelAt imageData x y else [0, 0, 0, 0])"
    using output_pixel [OF assms(2-6)] by blast
  have d: "shouldInclude N x y width height intensity frequency pattern =
     (\<not> (real_of_int (minDistFromEdge x y width height) < num_mul N intensity (num_lit N 2) \<and>
         num_add N (real_of_int (minDistFromEdge x y width height))
           (num_mul N
              (num_mul N (waveValue N pattern x y frequency)
                 (num_sub N intensity (real_of_int (minDistFromEdge x y width height))))
              (num_lit N 0.3))
         < num_mul N intensity (num_lit N 0.8)))"
    by (simp add: shouldInclude_def Let_def)
  show ?thesis
    using out(1) w by (intro exI [of _ out]) (simp add: out(2) d)
qed

text \<open>
  The tag \<^verbatim>\<open>sparkle\<close> at frequency 0, where the default wave value is 1 and that of
  \<^verbatim>\<open>gothic\<close>, \<^verbatim>\<open>flame\<close> and \<^verbatim>\<open>thorns\<close> is 0. Pixel \<open>(3, 3)\<close> of a 7 by 7 image at
  intensity 4 is kept (with a wave value of 0 it would be discarded, 3 being below 3.2),
  and pixel \<open>(5, 5)\<close> of a 10 by 10 image at intensity 7 is discarded.
\<close>

theorem unknown_pattern_fallback_witness:
  "(\<exists>out. createRippleEffect binary64 (testCanvas 7 7 (replicate 196 255)) 7 7 4 0
             ''sparkle'' = Inr out \<and>
          pixelAt out 3 3 = [255, 255, 255, 255]) \<and>
   (\<exists>out. createRippleEffect binary64 (testCanvas 10 10 (replicate 400 255)) 10 10 7 0
             ''sparkle'' = Inr out \<and>
          pixelAt out 5 5 = [0, 0, 0, 0])"
proof
  have p: "''sparkle'' \<notin> {''gothic'', ''organic'', ''flame'', ''thorns''}" by simp
  have cp: "canvasProvides (testCanvas 7 7 (replicate 196 255)) 7 7
     \<lparr>img_width = 7, img_height = 7, img_data = replicate 196 255\<rparr>
     \<lparr>img_width = 7, img_height = 7, img_data = replicate (nat (4 * 7 * 7)) 0\<rparr>"
    by (rule testCanvas_provides) simp_all
  have yes: "shouldInclude binary64 3 3 7 7 4 0 ''sparkle''"
    by (rule keep_at_intensity_4) simp
  have src: "pixelAt \<lparr>img_width = 7, img_height = 7, img_data = replicate 196 255\<rparr> 3 3 =
       [255, 255, 255, 255]"
    by (simp add: pixelAt_def numeral_eq_Suc)
  have d: "shouldInclude binary64 3 3 7 7 4 0 ''sparkle'' =
     (\<not> (real_of_int (minDistFromEdge 3 3 7 7) < num_mul binary64 4 (num_lit binary64 2) \<and>
         num_add binary64 (real_of_int (minDistFromEdge 3 3 7 7))
           (num_mul binary64
              (num_mul binary64 (waveValue binary64 ''sparkle'' 3 3 0)
                 (num_sub binary64 4 (real_of_int (minDistFromEdge 3 3 7 7))))
              (num_lit binary64 0.3))
         < num_mul binary64 4 (num_lit binary64 0.8)))"
    by (simp add: shouldInclude_def Let_def)
  obtain out where out:
    "createRippleEffect binary64 (testCanvas 7 7 (replicate 196 255)) 7 7 4 0 ''sparkle'' =
       Inr out"
    "waveValue binary64 ''sparkle'' 3 3 0 =
       num_add binary64 (Math_sin binary64 (num_mul binary64 (real_of_int 3) 0))
         (Math_cos binary64 (num_mul binary64 (real_of_int 3) 0))"
    "pixelAt out 3 3 =
       (if real_of_int (minDistFromEdge 3 3 7 7) < num_mul binary64 4 (num_lit binary64 2) \<and>
           num_add binary64 (real_of_int (minDistFromEdge 3 3 7 7))
             (num_mul binary64
                (num_mul binary64
                   (num_add binary64 (Math_sin binary64 (num_mul binary64 (real_of_int 3) 0))
                      (Math_cos binary64 (num_mul binary64 (real_of_int 3) 0)))
                   (num_sub binary64 4 (real_of_int (minDistFromEdge 3 3 7 7))))
                (num_lit binary64 0.3))
           < num_mul binary64 4 (num_lit binary64 0.8)
        then [0, 0, 0, 0]
        else pixelAt \<lparr>img_width = 7, img_height = 7, img_data = replicate 196 255\<rparr> 3 3)"
    using unknown_pattern_fallback [OF p cp, where x = 3 and y = 3 and N = binary64
        and intensity = 4 and frequency = 0]
    by auto
  have "pixelAt out 3 3 = [255, 255, 255, 255]"
    using yes unfolding d out(2) [symmetric] out(3) src by (simp split: if_splits)
  then show "\<exists>out. createRippleEffect binary64 (testCanvas 7 7 (replicate 196 255)) 7 7 4 0
             ''sparkle'' = Inr out \<and>
          pixelAt out 3 3 = [255, 255, 255, 255]"
    using out(1) by blast
next
  have p: "''sparkle'' \<notin> {''gothic'', ''organic'', ''flame'', ''thorns''}" by simp
  have cp: "canvasProvides (testCanvas 10 10 (replicate 400 255)) 10 10
     \<lparr>img_width = 10, img_height = 10, img_data = replicate 400 255\<rparr>
     \<lparr>img_width = 10, img_height = 10, img_data = replicate (nat (4 * 10 * 10)) 0\<rparr>"
    by (rule testCanvas_provides) simp_all
  have no: "\<not> shouldInclude binary64 5 5 10 10 7 0 ''sparkle''"
    by (rule discard_at_intensity_7) simp
  have d: "shouldInclude binary64 5 5 10 10 7 0 ''sparkle'' =
     (\<not> (real_of_int (minDistFromEdge 5 5 10 10) < num_mul binary64 7 (num_lit binary64 2) \<and>
         num_add binary64 (real_of_int (minDistFromEdge 5 5 10 10))
           (num_mul binary64
              (num_mul binary64 (waveValue binary64 ''sparkle'' 5 5 0)
                 (num_sub binary64 7 (real_of_int (minDistFromEdge 5 5 10 10))))
              (num_lit binary64 0.3))
         < num_mul binary64 7 (num_lit binary64 0.8)))"
    by (simp add: shouldInclude_def Let_def)
  obtain out where out:
    "createRippleEffect binary64 (testCanvas 10 10 (replicate 400 255)) 10 10 7 0 ''sparkle'' =
       Inr out"
    "waveValue binary64 ''sparkle'' 5 5 0 =
       num_add binary64 (Math_sin binary64 (num_mul binary64 (real_of_int 5) 0))
         (Math_cos binary64 (num_mul binary64 (real_of_int 5) 0))"
    "pixelAt out 5 5 =
       (if real_of_int (minDistFromEdge 5 5 10 10) < num_mul binary64 7 (num_lit binary64 2) \<and>
           num_add binary64 (real_of_int (minDistFromEdge 5 5 10 10))
             (num_mul binary64
                (num_mul binary64
                   (num_add binary64 (Math_sin binary64 (num_mul binary64 (real_of_int 5) 0))
                      (Math_cos binary64 (num_mul binary64 (real_of_int 5) 0)))
                   (num_sub binary64 7 (real_of_int (minDistFromEdge 5 5 10 10))))
                (num_lit binary64 0.3))
           < num_mul binary64 7 (num_lit binary64 0.8)
        then [0, 0, 0, 0]
        else pixelAt \<lparr>img_width = 10, img_height = 10, img_data = replicate 400 255\<rparr> 5 5)"
    using unknown_pattern_fallback [OF p cp, where x = 5 and y = 5 and N = binary64
        and intensity = 7 and frequency = 0]
    by auto
  have "pixelAt out 5 5 = [0, 0, 0, 0]"
    using no unfolding d out(2) [symmetric] out(3) by (simp split: if_splits)
  then show "\<exists>out. createRippleEffect binary64 (testCanvas 10 10 (replicate 400 255)) 10 10 7 0
             ''sparkle'' = Inr out \<and>
          pixelAt out 5 5 = [0, 0, 0, 0]"
    using out(1) by blast
qed

text \<open>
  Claim C8. The filter returns the image that \<^verbatim>\<open>createImageData\<close> allocated for it, with
  the bytes filled in and nothing else changed: it is not the image that
  \<^verbatim>\<open>getImageData\<close> returned, whatever that one is, and it holds as many bytes as were
  allocated. When the canvas returns images of the requested shape and the dimensions are
  positive, the output image therefore has the width and height of the input image and
  four bytes for each pixel, and each byte of it is the source byte at the same index
  or 0.
\<close>

theorem dimensions_preserved:
  assumes "getImageData ctx 0 0 width height = Inr imageData"
    and "createImageData ctx width height = Inr newImageData"
  shows "\<exists>out. createRippleEffect N ctx width height intensity frequency pattern = Inr out \<and>
           out = newImageData\<lparr>img_data := img_data out\<rparr> \<and>
           length (img_data out) = length (img_data newImageData) \<and>
           (wellFormed imageData width height \<and> wellFormed newImageData width height \<and>
            transparentBlack newImageData \<and> 0 < width \<and> 0 < height \<longrightarrow>
              img_width out = img_width imageData \<and>
              img_height out = img_height imageData \<and>
              int (length (img_data out)) = 4 * img_width out * img_height out \<and>
              (\<forall>k < length (img_data out).
                 img_data out ! k = img_data imageData ! k \<or> img_data out ! k = 0))"
proof -
  let ?out = "newImageData\<lparr>img_data :=
       yLoop N (img_data imageData) width height intensity frequency pattern 0
         (clearLoop 0 (img_data newImageData))\<rparr>"
  have res: "createRippleEffect N ctx width height intensity frequency pattern = Inr ?out"
    by (rule createRippleEffect_Inr [OF assms])
  have prov: "?out = newImageData\<lparr>img_data := img_data ?out\<rparr>" by simp
  have len: "length (img_data ?out) = length (img_data newImageData)" by simp
  have shape: "img_width ?out = img_width imageData \<and>
      img_height ?out = img_height imageData \<and>
      int (length (img_data ?out)) = 4 * img_width ?out * img_height ?out \<and>
      (\<forall>k < length (img_data ?out).
         img_data ?out ! k = img_data imageData ! k \<or> img_data ?out ! k = 0)"
    if wf: "wellFormed imageData width height \<and> wellFormed newImageData width height \<and>
            transparentBlack newImageData \<and> 0 < width \<and> 0 < height"
  proof -
    have cp: "canvasProvides ctx width height imageData newImageData"
      using assms wf by (simp add: canvasProvides_def)
    obtain out where out:
      "createRippleEffect N ctx width height intensity frequency pattern = Inr out"
      "img_width out = width" "img_height out = height"
      "length (img_data out) = length (img_data imageData)"
      "\<forall>k < length (img_data out). img_data out ! k =
         (if shouldInclude N ((int k div 4) mod width) ((int k div 4) div width)
               width height intensity frequency pattern
          then img_data imageData ! k else 0)"
      using output_bytes [OF cp, of N intensity frequency pattern] wf by blast
    have same: "out = ?out" using out(1) res by simp
    have src: "img_width imageData = width" "img_height imageData = height"
      "int (length (img_data imageData)) = 4 * width * height"
      using wf by (simp_all add: wellFormed_def)
    show ?thesis
      unfolding same [symmetric] using out src by auto
  qed
  show ?thesis
    using res prov len shape by blast
qed

theorem dimensions_preserved_witness:
  "\<exists>out. createRippleEffect binary64 (testCanvas 2 3 (replicate 24 200)) 2 3 5 (1/64)
            ''organic'' = Inr out \<and>
     out = \<lparr>img_width = 2, img_height = 3, img_data = img_data out\<rparr> \<and>
     length (img_data out) = 24"
proof -
  have g: "getImageData (testCanvas 2 3 (replicate 24 200)) 0 0 2 3 =
      Inr \<lparr>img_width = 2, img_height = 3, img_data = replicate 24 200\<rparr>"
    by (simp add: testCanvas_def)
  have c: "createImageData (testCanvas 2 3 (replicate 24 200)) 2 3 =
      Inr \<lparr>img_width = 2, img_height = 3, img_data = replicate 24 0\<rparr>"
    by (simp add: testCanvas_def)
  have wf: "wellFormed \<lparr>img_width = 2, img_height = 3, img_data = replicate 24 200\<rparr> 2 3 \<and>
      wellFormed \<lparr>img_width = 2, img_height = 3, img_data = replicate 24 0\<rparr> 2 3 \<and>
      transparentBlack \<lparr>img_width = 2, img_height = 3, img_data = replicate 24 0\<rparr> \<and>
      (0::int) < 2 \<and> (0::int) < 3"
    by (simp add: wellFormed_def transparentBlack_def)
  show ?thesis
    using dimensions_preserved [OF g c, where N = binary64 and intensity = 5
        and frequency = "1/64" and pattern = "''organic''"] wf
    by auto
qed

text \<open>
  Claim C9. The decision to keep or discard a pixel does not depend on the pixel values.
  Run the filter on two canvases of the same width and height with the same intensity,
  frequency and pattern: at every coordinate either both runs copy their source pixel or
  both runs leave transparent black, and which of the two happens is given by
  \<open>shouldInclude\<close>, a function of the coordinates, the dimensions and the three parameters
  only.
\<close>

theorem decision_ignores_pixel_content:
  assumes "canvasProvides ctx1 width height imageData1 newImageData1"
    and "canvasProvides ctx2 width height imageData2 newImageData2"
    and "0 \<le> x" "x < width" "0 \<le> y" "y < height"
  shows "\<exists>out1 out2.
           createRippleEffect N ctx1 width height intensity frequency pattern = Inr out1 \<and>
           createRippleEffect N ctx2 width height intensity frequency pattern = Inr out2 \<and>
           (if shouldInclude N x y width height intensity frequency pattern
            then pixelAt out1 x y = pixelAt imageData1 x y \<and>
                 pixelAt out2 x y = pixelAt imageData2 x y
            else pixelAt out1 x y = [0, 0, 0, 0] \<and> pixelAt out2 x y = [0, 0, 0, 0])"
proof -
  obtain out1 where out1:
    "createRippleEffect N ctx1 width height intensity frequency pattern = Inr out1"
    "pixelAt out1 x y =
       (if shouldInclude N x y width height intensity frequency pattern
        then pixelAt imageData1 x y else [0, 0, 0, 0])"
    using output_pixel [OF assms(1) assms(3-6)] by blast
  obtain out2 where out2:
    "createRippleEffect N ctx2 width height intensity frequency pattern = Inr out2"
    "pixelAt out2 x y =
       (if shouldInclude N x y width height intensity frequency pattern
        then pixelAt imageData2 x y else [0, 0, 0, 0])"
    using output_pixel [OF assms(2) assms(3-6)] by blast
  show ?thesis
    by (intro exI [of _ out1] exI [of _ out2]) (simp add: out1 out2)
qed

theorem decision_ignores_pixel_content_witness:
  "\<exists>out1 out2.
     createRippleEffect binary64 (testCanvas 1 1 [10, 20, 30, 40]) 1 1 20 0 ''thorns'' =
       Inr out1 \<and>
     createRippleEffect binary64 (testCanvas 1 1 [50, 60, 70, 80]) 1 1 20 0 ''thorns'' =
       Inr out2 \<and>
     pixelAt out1 0 0 = [0, 0, 0, 0] \<and> pixelAt out2 0 0 = [0, 0, 0, 0]"
proof -
  have cp1: "canvasProvides (testCanvas 1 1 [10, 20, 30, 40]) 1 1
     \<lparr>img_width = 1, img_height = 1, img_data = [10, 20, 30, 40]\<rparr>
     \<lparr>img_width = 1, img_height = 1, img_data = replicate (nat (4 * 1 * 1)) 0\<rparr>"
    by (rule testCanvas_provides) simp_all
  have cp2: "canvasProvides (testCanvas 1 1 [50, 60, 70, 80]) 1 1
     \<lparr>img_width = 1, img_height = 1, img_data = [50, 60, 70, 80]\<rparr>
     \<lparr>img_width = 1, img_height = 1, img_data = replicate (nat (4 * 1 * 1)) 0\<rparr>"
    by (rule testCanvas_provides) simp_all
  have no: "\<not> shouldInclude binary64 0 0 1 1 20 0 ''thorns''"
    by (rule discard_at_intensity_20) simp
  show ?thesis
    using decision_ignores_pixel_content [OF cp1 cp2, where x = 0 and y = 0
        and N = binary64 and intensity = 20 and frequency = 0 and pattern = "''thorns''"] no
    by auto
qed

text \<open>
  Claim C10. For an intensity of 0 or below, where the product \<^verbatim>\<open>intensity * 2\<close> that
  the code computes is not positive either (\<open>binary64_double_nonpos\<close> shows it for IEEE
  doubles), the filter does not fail and does not distort. Every pixel of the image has an edge
  distance of at least 0, which is at least \<open>2 * intensity\<close>, so the border branch is
  never taken and the output bytes are the source bytes, all of them.
\<close>

theorem nonpositive_intensity_copies:
  assumes "canvasProvides ctx width height imageData newImageData"
    and "0 < width" and "0 < height"
    and "intensity \<le> 0" and "num_mul N intensity (num_lit N 2) \<le> 0"
  shows "\<exists>out. createRippleEffect N ctx width height intensity frequency pattern = Inr out \<and>
           img_width out = width \<and> img_height out = height \<and>
           img_data out = img_data imageData"
proof -
  obtain out where out:
    "createRippleEffect N ctx width height intensity frequency pattern = Inr out"
    "img_width out = width" "img_height out = height"
    "length (img_data out) = length (img_data imageData)"
    "\<forall>k < length (img_data out). img_data out ! k =
       (if shouldInclude N ((int k div 4) mod width) ((int k div 4) div width)
             width height intensity frequency pattern
        then img_data imageData ! k else 0)"
    using output_bytes [OF assms(1,2)] by blast
  have li: "int (length (img_data imageData)) = 4 * width * height"
    using assms(1) by (simp add: canvasProvides_def wellFormed_def)
  have "img_data out = img_data imageData"
  proof (rule nth_equalityI)
    show "length (img_data out) = length (img_data imageData)" by (rule out(4))
  next
    fix k assume k: "k < length (img_data out)"
    then have "int k < 4 * width * height" using out(4) li by linarith
    note rng = row_in_range [OF assms(2) this]
    have "0 \<le> minDistFromEdge ((int k div 4) mod width) ((int k div 4) div width) width height"
      using rng by (intro minDistFromEdge_nonneg) simp_all
    then have "num_mul N intensity (num_lit N 2) \<le>
        real_of_int (minDistFromEdge ((int k div 4) mod width) ((int k div 4) div width) width height)"
      using assms(5) by linarith
    then have "shouldInclude N ((int k div 4) mod width) ((int k div 4) div width)
        width height intensity frequency pattern"
      by (rule shouldInclude_interior)
    then show "img_data out ! k = img_data imageData ! k"
      using out(5) k by simp
  qed
  then show ?thesis using out by simp
qed

theorem nonpositive_intensity_copies_witness:
  "\<exists>out. createRippleEffect binary64 (testCanvas 2 2 (replicate 16 77)) 2 2 (- 3) (1/64)
            ''gothic'' = Inr out \<and>
     img_data out = replicate 16 77"
proof -
  have cp: "canvasProvides (testCanvas 2 2 (replicate 16 77)) 2 2
     \<lparr>img_width = 2, img_height = 2, img_data = replicate 16 77\<rparr>
     \<lparr>img_width = 2, img_height = 2, img_data = replicate (nat (4 * 2 * 2)) 0\<rparr>"
    by (rule testCanvas_provides) simp_all
  have dbl: "num_mul binary64 (- 3) (num_lit binary64 2) \<le> 0"
    by (rule binary64_double_nonpos) simp
  show ?thesis
    using nonpositive_intensity_copies [OF cp _ _ _ dbl, where frequency = "1/64"
        and pattern = "''gothic''"]
    by auto
qed

end
